theory Spec2Isabelle
  imports Complex_Main "HOL-Library.Multiset"
begin

section \<open>The boundary layer (app.py)\<close>

subsection \<open>Data delivered by the recommendation service\<close>

text \<open>
  One element of \<open>recommended_assessments\<close>, in the shape of the response contract:
  \<open>duration\<close> is \<open>integer|null\<close>, \<open>test_type\<close> a list of labels.
\<close>

record assessment =
  url :: string
  description :: string
  test_type :: "string list"
  duration :: "int option"
  remote_support :: bool
  adaptive_support :: bool

text \<open>
  What \<open>r.json()["recommended_assessments"]\<close> does on a response: it raises (the body is
  not JSON, or the key is missing) with some exception text, or it yields the list.
\<close>

datatype body = Unparsable string | Assessments "assessment list"

text \<open>
  The outcome of one \<open>requests.get\<close> / \<open>requests.post\<close>: a transport-level exception
  with its text, or a response with its status code and body.
\<close>

datatype http_outcome = Raised string | Response int body

text \<open>
  The outcome of fetching and parsing a job page inside \<open>scrape_job_description\<close>:
  any exception raised by \<open>requests.get\<close> or by the parser, or the parsed page, given by
  the text of the first \<open>div\<close> of class \<open>job-description\<close>/\<open>description\<close> (if there is
  one) and the stripped texts of its \<open>p\<close> elements.
\<close>

datatype page_outcome = PageRaised string | Page "string option" "string list"

subsection \<open>Observable actions\<close>

record card =
  card_index :: nat
  card_url :: string
  card_headline :: string
  card_badges :: "string list"
  card_duration :: string
  card_remote :: bool
  card_adaptive :: bool
  card_rationale :: string

text \<open>
  What a metric shows: an integer, a text, or an integer that the model leaves open (the
  average beyond the range where double precision is exact).
\<close>

datatype metric_value = MInt int | MStr string | MRounded

datatype event =
    Probe bool
  | StInfo string
  | Popen
  | Sleep nat
  | StError string
  | StStop
  | Header
  | GetPage string
  | StTextArea string
  | PostRecommend string int
  | StWarning string
  | StMetric string metric_value
  | Heading
  | Card card
  | Chart "string list"
  | Footer

subsection \<open>Process management and API calls\<close>

definition start_api_server :: "string option \<Rightarrow> event list" where
  "start_api_server popen_error =
     (case popen_error of
        None \<Rightarrow> [Popen, Sleep 3]
      | Some e \<Rightarrow> [Popen, StError (''Failed to start API: '' @ e)])"

definition check_api_health :: "http_outcome \<Rightarrow> bool" where
  "check_api_health r =
     (case r of
        Response status_code b \<Rightarrow> status_code = 200
      | Raised e \<Rightarrow> False)"

definition default_max_results :: int where
  "default_max_results = 10"

definition get_recommendations_from_api ::
  "http_outcome \<Rightarrow> string \<Rightarrow> int option \<Rightarrow> event list \<times> assessment list" where
  "get_recommendations_from_api r query max_results =
     (let m = (case max_results of None \<Rightarrow> default_max_results | Some v \<Rightarrow> v);
          post = PostRecommend query m
      in case r of
           Response status_code b \<Rightarrow>
             if status_code = 200 then
               (case b of
                  Assessments recs \<Rightarrow> ([post], recs)
                | Unparsable e \<Rightarrow> ([post, StError (''API error: '' @ e)], []))
             else ([post], [])
         | Raised e \<Rightarrow> ([post, StError (''API error: '' @ e)], []))"

subsection \<open>Job description scraper\<close>

fun join :: "string \<Rightarrow> string list \<Rightarrow> string" where
  "join sep [] = []"
| "join sep [x] = x"
| "join sep (x # y # ys) = x @ sep @ join sep (y # ys)"

definition scrape_job_description :: "page_outcome \<Rightarrow> string \<Rightarrow> string" where
  "scrape_job_description fetched u =
     (case fetched of
        Page (Some content) ps \<Rightarrow> content
      | Page None ps \<Rightarrow> join '' '' ps
      | PageRaised e \<Rightarrow> ''Error: '' @ e)"

subsection \<open>Python string operations used by the page\<close>

text \<open>
  \<open>s.split(sep)\<close> for a one-character separator: the maximal pieces between occurrences
  of \<open>sep\<close>; the result always has at least one piece.
\<close>

fun split :: "char \<Rightarrow> string \<Rightarrow> string list" where
  "split sep [] = [[]]"
| "split sep (c # cs) =
     (if c = sep then [] # split sep cs
      else (case split sep cs of
              [] \<Rightarrow> [[c]]
            | piece # pieces \<Rightarrow> (c # piece) # pieces))"

text \<open>\<open>str(n)\<close> for an integer, and for \<open>None\<close>.\<close>

definition digit_char :: "nat \<Rightarrow> char" where
  "digit_char d = char_of (of_char (CHR ''0'') + d)"

fun digits :: "nat \<Rightarrow> string" where
  "digits n = (if n < 10 then [digit_char n] else digits (n div 10) @ [digit_char (n mod 10)])"

declare digits.simps [simp del]

definition str_int :: "int \<Rightarrow> string" where
  "str_int i = (if i < 0 then CHR ''-'' # digits (nat (- i)) else digits (nat i))"

definition str_duration :: "int option \<Rightarrow> string" where
  "str_duration d = (case d of None \<Rightarrow> ''None'' | Some i \<Rightarrow> str_int i)"

subsection \<open>Metrics\<close>

text \<open>Truthiness of \<open>r["duration"]\<close>: \<open>None\<close> and \<open>0\<close> are falsy.\<close>

definition truthy_duration :: "int option \<Rightarrow> bool" where
  "truthy_duration d = (case d of None \<Rightarrow> False | Some i \<Rightarrow> i \<noteq> 0)"

text \<open>\<open>durations = [r["duration"] for r in results if r["duration"]]\<close>\<close>

fun durations :: "assessment list \<Rightarrow> int list" where
  "durations [] = []"
| "durations (r # rs) =
     (case duration r of
        None \<Rightarrow> durations rs
      | Some i \<Rightarrow> if truthy_duration (Some i) then i # durations rs else durations rs)"

text \<open>\<open>test_types = [t for r in results for t in r["test_type"]]\<close>\<close>

definition test_types :: "assessment list \<Rightarrow> string list" where
  "test_types results = concat (map test_type results)"

text \<open>
  \<open>int(np.mean(durations))\<close> on a non-empty list of integers: the mean, truncated towards
  zero. \<open>np.mean\<close> adds and divides in double precision: while the absolute values add up
  to less than \<open>2^53\<close> every partial sum is exact and truncating the rounded quotient gives
  the truncated exact quotient. Beyond that range the result depends on the rounding, which
  is not modelled: \<open>None\<close>.
\<close>

definition int_mean :: "int list \<Rightarrow> int option" where
  "int_mean ds =
     (let total = sum_list ds; n = int (length ds)
      in if sum_list (map abs ds) < 2 ^ 53 then
           Some (if 0 \<le> total then total div n else - ((- total) div n))
         else None)"

text \<open>\<open>int(np.mean(durations)) if durations else "N/A"\<close>\<close>

definition avg_duration_metric :: "assessment list \<Rightarrow> metric_value" where
  "avg_duration_metric results =
     (let ds = durations results
      in if ds \<noteq> [] then (case int_mean ds of Some avg \<Rightarrow> MInt avg | None \<Rightarrow> MRounded)
         else MStr ''N/A'')"

definition metrics :: "assessment list \<Rightarrow> event list" where
  "metrics results =
     [StMetric ''Recommendations'' (MInt (int (length results))),
      StMetric ''Unique Test Types'' (MInt (int (length (remdups (test_types results))))),
      StMetric ''Avg Duration (mins)'' (avg_duration_metric results)]"

subsection \<open>Cards\<close>

text \<open>\<open>a['description'].split('.')[0]\<close>; the split is never empty, so the index is in range.\<close>

definition headline :: "string \<Rightarrow> string" where
  "headline d = (case split (CHR ''.'') d of [] \<Rightarrow> [] | piece # pieces \<Rightarrow> piece)"

text \<open>\<open>". ".join(a['description'].split('.')[1:])\<close>\<close>

definition rationale :: "string \<Rightarrow> string" where
  "rationale d = join ''. '' (drop 1 (split (CHR ''.'') d))"

text \<open>
  Reading a rendered rationale back: drop the blank that \<open>". ".join\<close> puts after each
  \<open>'.'\<close>. (Not part of the page; used to say what can be recovered from a card.)
\<close>

fun unspace :: "string \<Rightarrow> string" where
  "unspace [] = []"
| "unspace [c] = [c]"
| "unspace (c # c' # cs) =
     (if c = CHR ''.'' \<and> c' = CHR '' '' then c # unspace cs else c # unspace (c' # cs))"

definition render_card :: "nat \<Rightarrow> assessment \<Rightarrow> card" where
  "render_card i a =
     \<lparr> card_index = i + 1,
       card_url = url a,
       card_headline = headline (description a),
       card_badges = test_type a,
       card_duration = str_duration (duration a) @ '' minutes'',
       card_remote = remote_support a,
       card_adaptive = adaptive_support a,
       card_rationale = rationale (description a) \<rparr>"

definition cards :: "assessment list \<Rightarrow> event list" where
  "cards results = map (\<lambda>(i, a). Card (render_card i a)) (enumerate 0 results)"

subsection \<open>The page script\<close>

datatype input_mode = TextQuery | JobDescriptionURL

text \<open>
  What the widgets return in one run of the script: the radio choice, the slider position
  (\<open>None\<close> while the user has not moved it), the text area, the URL field and the button.
\<close>

record ui =
  mode :: input_mode
  slider_pos :: "int option"
  text_area :: string
  url_input :: string
  run :: bool

text \<open>
  What the outside world answers in one run: the two health probes, the attempt to spawn
  the backend, the job page, and the POST to \<open>/recommend\<close>.
\<close>

record env =
  health1 :: http_outcome
  popen_error :: "string option"
  health2 :: http_outcome
  page :: page_outcome
  recommend :: http_outcome

text \<open>
  \<open>st.slider(label, min_value, max_value, value)\<close>: the widget returns \<open>value\<close> until the
  user moves the handle, and the handle cannot leave the track, so a position is held
  between \<open>min_value\<close> and \<open>max_value\<close>.
\<close>

definition slider :: "int \<Rightarrow> int \<Rightarrow> int \<Rightarrow> int option \<Rightarrow> int" where
  "slider min_value max_value dflt pos =
     (case pos of None \<Rightarrow> dflt | Some v \<Rightarrow> max min_value (min max_value v))"

text \<open>Line 186: \<open>max_results = st.slider("Max Recommendations", 3, 15, 10)\<close>\<close>

definition max_results_of :: "ui \<Rightarrow> int" where
  "max_results_of w = slider 3 15 10 (slider_pos w)"

text \<open>
  Lines 163-168: probe, start the backend and probe again; the boolean tells whether the
  script goes on (False after \<open>st.stop()\<close>).
\<close>

definition startup :: "env \<Rightarrow> event list \<times> bool" where
  "startup e =
     (if \<not> check_api_health (health1 e) then
        (let evs = [Probe False, StInfo ''Starting backend AI service...'']
                   @ start_api_server (popen_error e)
         in if \<not> check_api_health (health2 e) then
              (evs @ [Probe False, StError ''Failed to start API service'', StStop], False)
            else (evs @ [Probe True], True))
      else ([Probe True], True))"

text \<open>Lines 191-208: the query is \<open>None\<close>, the typed text, or the scraped text.\<close>

definition input_section :: "ui \<Rightarrow> env \<Rightarrow> event list \<times> string option" where
  "input_section w e =
     (case mode w of
        TextQuery \<Rightarrow> ([], Some (text_area w))
      | JobDescriptionURL \<Rightarrow>
          if run w \<and> url_input w \<noteq> [] then
            (let query = scrape_job_description (page e) (url_input w)
             in ([GetPage (url_input w), StTextArea query], Some query))
          else ([], None))"

definition truthy_query :: "string option \<Rightarrow> bool" where
  "truthy_query q = (case q of None \<Rightarrow> False | Some s \<Rightarrow> s \<noteq> [])"

text \<open>
  Lines 213-270 for a truthy query; the boolean is True when the function returns at
  line 219, before the footer.
\<close>

definition recommendations :: "ui \<Rightarrow> env \<Rightarrow> string \<Rightarrow> event list \<times> bool" where
  "recommendations w e query =
     (let (evs, results) =
            get_recommendations_from_api (recommend e) query (Some (max_results_of w))
      in if results = [] then
           (evs @ [StWarning ''No assessments found. Try refining your query.''], True)
         else
           (evs @ metrics results @ [Heading] @ cards results @ [Chart (test_types results)],
            False))"

text \<open>Lines 173-278: everything after the health gate.\<close>

definition page_body :: "ui \<Rightarrow> env \<Rightarrow> event list" where
  "page_body w e =
     (let (evs1, query) = input_section w e
      in if run w \<and> truthy_query query then
           (case query of
              None \<Rightarrow> [Header] @ evs1 @ [Footer]
            | Some q \<Rightarrow>
                (let (evs2, returned) = recommendations w e q
                 in if returned then [Header] @ evs1 @ evs2
                    else [Header] @ evs1 @ evs2 @ [Footer]))
         else [Header] @ evs1 @ [Footer])"

definition main :: "ui \<Rightarrow> env \<Rightarrow> event list" where
  "main w e =
     (let (evs0, alive) = startup e
      in if \<not> alive then evs0 else evs0 @ page_body w e)"

text \<open>
  Lines 90-95, before \<open>main\<close>: without an API key the script reports it and stops.
\<close>

definition script :: "string option \<Rightarrow> ui \<Rightarrow> env \<Rightarrow> event list" where
  "script api_key w e =
     (if api_key = None \<or> api_key = Some [] then
        [StError ''OPENROUTER_API_KEY not found in environment'', StStop]
      else main w e)"

section \<open>The recommendation engine, as specified\<close>

text \<open>
  The engine (\<open>api.py\<close> and the modules behind it) sits behind the HTTP endpoint
  that the boundary layer calls. Its data model, retriever and constraint filter are
  written down here from sections 3, 4.3 and 4.4 of the specification.
\<close>

text \<open>Modelled from the spec: the AssessmentRecord of section 3 (the engine's record type).\<close>

record assessment_record =
  rec_id :: string
  rec_url :: string
  name :: string
  rec_description :: string
  rec_test_type :: "string list"
  duration_minutes :: "nat option"
  rec_remote_support :: bool
  rec_adaptive_support :: bool
  embedding :: "real list"

text \<open>Modelled from the spec: the derived constraints of a Query (section 3).\<close>

record constraints =
  duration_ceiling :: "nat option"
  required_types :: "string list"

text \<open>
  Modelled from the spec: the duration policy of the Constraint Filter (section 4.4). A
  record is removed when its duration is present and exceeds the ceiling; a record with
  absent duration is not removed.
\<close>

definition within_ceiling :: "nat option \<Rightarrow> assessment_record \<Rightarrow> bool" where
  "within_ceiling max_minutes r =
     (case max_minutes of
        None \<Rightarrow> True
      | Some c \<Rightarrow> (case duration_minutes r of None \<Rightarrow> True | Some d \<Rightarrow> \<not> c < d))"

text \<open>
  Modelled from the spec: the required-test-type policy of the Constraint Filter
  (section 4.4). A record is kept when its tags intersect the required ones; an empty
  requirement is a no-op.
\<close>

definition has_required_type :: "string list \<Rightarrow> assessment_record \<Rightarrow> bool" where
  "has_required_type required r =
     (required = [] \<or> set (rec_test_type r) \<inter> set required \<noteq> {})"

text \<open>
  Modelled from the spec: the Constraint Filter's \<open>filter(ranked_candidates, constraints,
  limit)\<close> of section 4.4: apply both policies keeping the retriever's order, then
  truncate to \<open>limit\<close>.
\<close>

definition filter_candidates ::
  "(assessment_record \<times> real) list \<Rightarrow> constraints \<Rightarrow> nat \<Rightarrow> (assessment_record \<times> real) list" where
  "filter_candidates ranked_candidates cons limit =
     take limit
       (filter (\<lambda>c. within_ceiling (duration_ceiling cons) (fst c)
                    \<and> has_required_type (required_types cons) (fst c))
          ranked_candidates)"







subsection \<open>Concrete inputs\<close>

definition example_record :: "string \<Rightarrow> nat option \<Rightarrow> real list \<Rightarrow> assessment_record" where
  "example_record i d v =
     \<lparr> rec_id = i, rec_url = ''https://catalog.example/'' @ i, name = i,
       rec_description = ''Assessment '' @ i @ ''.'', rec_test_type = [''Knowledge & Skills''],
       duration_minutes = d, rec_remote_support = True, rec_adaptive_support = False,
       embedding = v \<rparr>"

definition example_ranked :: "(assessment_record \<times> real) list" where
  "example_ranked =
     [(example_record ''a'' None [1, 0], 9 / 10),
      (example_record ''b'' (Some 15) [1, 0], 8 / 10),
      (example_record ''c'' (Some 45) [1, 0], 7 / 10),
      (example_record ''d'' (Some 60) [1, 0], 6 / 10)]"

definition ceiling_40 :: constraints where
  "ceiling_40 = \<lparr> duration_ceiling = Some 40, required_types = [] \<rparr>"



definition java_test :: assessment where
  "java_test =
     \<lparr> url = ''https://catalog.example/java'',
       description = ''Java test. Measures core Java. Untimed'',
       test_type = [''Knowledge & Skills''], duration = Some 30,
       remote_support = True, adaptive_support = False \<rparr>"

definition teamwork :: assessment where
  "teamwork =
     \<lparr> url = ''https://catalog.example/teamwork'',
       description = ''Teamwork questionnaire'',
       test_type = [''Personality'', ''Knowledge & Skills''], duration = None,
       remote_support = True, adaptive_support = True \<rparr>"

definition typed_java :: ui where
  "typed_java =
     \<lparr> mode = TextQuery, slider_pos = None, text_area = ''java'', url_input = [], run = True \<rparr>"

definition pasted_url :: ui where
  "pasted_url =
     \<lparr> mode = JobDescriptionURL, slider_pos = Some 5, text_area = [],
       url_input = ''http://jobs.example/1'', run = True \<rparr>"

definition backend_up :: env where
  "backend_up =
     \<lparr> health1 = Response 200 (Unparsable ''no key''), popen_error = None,
       health2 = Response 200 (Unparsable ''no key''),
       page = PageRaised ''timed out'',
       recommend = Response 200 (Assessments [java_test, teamwork]) \<rparr>"

definition backend_down :: env where
  "backend_down =
     \<lparr> health1 = Raised ''connection refused'', popen_error = None,
       health2 = Raised ''connection refused'',
       page = PageRaised ''timed out'',
       recommend = Response 200 (Assessments [java_test, teamwork]) \<rparr>"

definition backend_cold :: env where
  "backend_cold = backend_down \<lparr> health2 := Response 200 (Unparsable ''no key'') \<rparr>"

definition no_matches :: env where
  "no_matches = backend_up \<lparr> recommend := Response 200 (Assessments []) \<rparr>"

definition catalog_unavailable :: env where
  "catalog_unavailable = backend_up \<lparr> recommend := Response 503 (Unparsable ''no key'') \<rparr>"

definition unreachable :: env where
  "unreachable = backend_up \<lparr> recommend := Raised ''connection reset'' \<rparr>"

section \<open>Health probe\<close>

text \<open>
  C10: \<open>check_api_health\<close> returns a boolean on every outcome of the GET request: True
  exactly when the request completes with status 200, False for every other status code and
  for every transport-level exception.
\<close>

theorem check_api_health_iff_200:
  "(check_api_health r \<longleftrightarrow> (\<exists>b. r = Response 200 b))
   \<and> check_api_health (Raised e) = False
   \<and> check_api_health (Response s b') = (s = 200)"
  by (cases r) (simp_all add: check_api_health_def)

section \<open>The trace of the page\<close>

lemma startup_no_post: "PostRecommend q m \<notin> set (fst (startup e))"
  by (simp add: startup_def start_api_server_def Let_def split: option.split)

lemma startup_no_card: "Card c \<notin> set (fst (startup e))"
  by (simp add: startup_def start_api_server_def Let_def split: option.split)

lemma startup_alive_probe: "snd (startup e) \<Longrightarrow> Probe True \<in> set (fst (startup e))"
  by (simp add: startup_def Let_def split: if_splits)

lemma startup_alive_iff:
  "snd (startup e) \<longleftrightarrow> check_api_health (health1 e) \<or> check_api_health (health2 e)"
  by (simp add: startup_def Let_def)

lemma main_unfold:
  "main w e = (if snd (startup e) then fst (startup e) @ page_body w e else fst (startup e))"
  by (simp add: main_def split: prod.split)

lemma cards_only_cards: "x \<in> set (cards rs) \<Longrightarrow> \<exists>c. x = Card c"
  by (auto simp: cards_def)

lemma recommendations_post:
  "PostRecommend q m \<in> set (fst (recommendations w e query)) \<longleftrightarrow> q = query \<and> m = max_results_of w"
  by (auto simp: recommendations_def get_recommendations_from_api_def metrics_def Let_def
      dest: cards_only_cards split: http_outcome.splits body.splits if_splits)

lemma input_section_no_post: "PostRecommend q m \<notin> set (fst (input_section w e))"
  by (simp add: input_section_def Let_def split: input_mode.split)

lemma input_section_no_card: "Card c \<notin> set (fst (input_section w e))"
  by (simp add: input_section_def Let_def split: input_mode.split)

lemma page_body_post:
  "PostRecommend q m \<in> set (page_body w e)
     \<longleftrightarrow> run w \<and> snd (input_section w e) = Some q \<and> q \<noteq> [] \<and> m = max_results_of w"
proof (cases "input_section w e")
  case (Pair evs1 query)
  have np: "PostRecommend q m \<notin> set evs1"
    using input_section_no_post [of q m w e] Pair by simp
  show ?thesis
  proof (cases query)
    case None
    with Pair np show ?thesis by (simp add: page_body_def truthy_query_def)
  next
    case (Some q')
    obtain evs2 returned where r: "recommendations w e q' = (evs2, returned)"
      by (cases "recommendations w e q'")
    have "PostRecommend q m \<in> set evs2 \<longleftrightarrow> q = q' \<and> m = max_results_of w"
      using recommendations_post [of q m w e q'] r by simp
    with Pair Some np r show ?thesis
      by (auto simp: page_body_def truthy_query_def)
  qed
qed

lemma main_post:
  "PostRecommend q m \<in> set (main w e)
     \<longleftrightarrow> snd (startup e) \<and> run w \<and> snd (input_section w e) = Some q \<and> q \<noteq> []
         \<and> m = max_results_of w"
  using startup_no_post [of q m e] by (auto simp: main_unfold page_body_post)

lemma main_when_posted:
  assumes "PostRecommend q m \<in> set (main w e)"
  shows "main w e = fst (startup e) @ [Header] @ fst (input_section w e)
           @ (if snd (recommendations w e q) then fst (recommendations w e q)
              else fst (recommendations w e q) @ [Footer])"
proof -
  from assms have a: "snd (startup e)" "run w" "snd (input_section w e) = Some q" "q \<noteq> []"
    by (simp_all add: main_post)
  obtain evs1 where i: "input_section w e = (evs1, Some q)"
    using a(3) by (cases "input_section w e") simp
  show ?thesis
    using a(1,2,4) i
    by (simp add: main_unfold page_body_def truthy_query_def split: prod.split)
qed

section \<open>Requests issued by the page\<close>

text \<open>
  C3: every recommendation request issued by the page satisfies the input contract: the
  query is non-empty and \<open>max_results\<close> lies in 1..50, because it is the value of a slider
  created with the bounds 3 and 15 and the default 10 (so it is 10 while the slider is
  untouched); the function's own default for \<open>max_results\<close> is 10 as well.
\<close>

theorem request_meets_input_contract:
  assumes "PostRecommend q m \<in> set (main w e)"
  shows "q \<noteq> [] \<and> 1 \<le> m \<and> m \<le> 50 \<and> 3 \<le> m \<and> m \<le> 15
         \<and> (slider_pos w = None \<longrightarrow> m = 10)
         \<and> fst (get_recommendations_from_api r q None) ! 0 = PostRecommend q 10"
proof -
  from assms have q: "q \<noteq> []" and m: "m = max_results_of w"
    by (simp_all add: main_post)
  from m have "3 \<le> m \<and> m \<le> 15 \<and> (slider_pos w = None \<longrightarrow> m = 10)"
    by (cases "slider_pos w") (simp_all add: max_results_of_def slider_def)
  moreover have "fst (get_recommendations_from_api r q None) ! 0 = PostRecommend q 10"
    by (simp add: get_recommendations_from_api_def default_max_results_def Let_def
        split: http_outcome.split body.split)
  ultimately show ?thesis using q by simp
qed

text \<open>A run with the slider at 5 and a scraped query.\<close>

theorem request_meets_input_contract_witness:
  "PostRecommend ''Error: timed out'' 5 \<in> set (main pasted_url backend_up)
   \<and> ''Error: timed out'' \<noteq> [] \<and> (1::int) \<le> 5 \<and> (5::int) \<le> 50
   \<and> fst (get_recommendations_from_api (Raised ''reset'') ''Error: timed out'' None) ! 0
       = PostRecommend ''Error: timed out'' 10"
proof -
  have p: "PostRecommend ''Error: timed out'' 5 \<in> set (main pasted_url backend_up)"
    by (simp add: main_post startup_def input_section_def scrape_job_description_def Let_def
        check_api_health_def max_results_of_def slider_def pasted_url_def backend_up_def)
  from request_meets_input_contract [OF p, of "Raised ''reset''"] p
  show ?thesis by simp
qed

text \<open>
  C6: in every execution a recommendation request is issued only after a health probe has
  returned success; when the first probe fails the backend is started and probed again, and
  when that probe fails too the script halts without calling \<open>/recommend\<close>.
\<close>

theorem request_only_after_healthy_probe:
  "(\<forall>q m. PostRecommend q m \<in> set (script k w e) \<longrightarrow>
       (\<exists>pre post. script k w e = pre @ PostRecommend q m # post \<and> Probe True \<in> set pre))
   \<and> (\<not> check_api_health (health1 e) \<longrightarrow>
       (\<exists>rest. main w e = [Probe False, StInfo ''Starting backend AI service...'']
                  @ start_api_server (popen_error e)
                  @ Probe (check_api_health (health2 e)) # rest))
   \<and> (\<not> check_api_health (health1 e) \<and> \<not> check_api_health (health2 e) \<longrightarrow>
       main w e = [Probe False, StInfo ''Starting backend AI service...'']
                  @ start_api_server (popen_error e)
                  @ [Probe False, StError ''Failed to start API service'', StStop]
       \<and> (\<forall>q m. PostRecommend q m \<notin> set (main w e)))"
proof (intro conjI allI impI)
  fix q m
  assume a: "PostRecommend q m \<in> set (script k w e)"
  then have sm: "script k w e = main w e"
    by (auto simp: script_def split: if_splits)
  with a have alive: "snd (startup e)" and pb: "PostRecommend q m \<in> set (page_body w e)"
    by (simp_all add: main_post page_body_post)
  from pb obtain ys zs where "page_body w e = ys @ PostRecommend q m # zs"
    by (auto dest: split_list)
  with alive sm have "script k w e = (fst (startup e) @ ys) @ PostRecommend q m # zs"
    by (simp add: main_unfold)
  moreover have "Probe True \<in> set (fst (startup e) @ ys)"
    using startup_alive_probe [OF alive] by simp
  ultimately show "\<exists>pre post. script k w e = pre @ PostRecommend q m # post \<and> Probe True \<in> set pre"
    by blast
next
  assume "\<not> check_api_health (health1 e)"
  then show "\<exists>rest. main w e = [Probe False, StInfo ''Starting backend AI service...'']
                  @ start_api_server (popen_error e)
                  @ Probe (check_api_health (health2 e)) # rest"
    by (simp add: main_unfold startup_def Let_def)
next
  assume "\<not> check_api_health (health1 e) \<and> \<not> check_api_health (health2 e)"
  then show "main w e = [Probe False, StInfo ''Starting backend AI service...'']
                  @ start_api_server (popen_error e)
                  @ [Probe False, StError ''Failed to start API service'', StStop]"
    by (simp add: main_unfold startup_def Let_def)
next
  fix q m
  assume "\<not> check_api_health (health1 e) \<and> \<not> check_api_health (health2 e)"
  then show "PostRecommend q m \<notin> set (main w e)"
    by (simp add: main_post startup_alive_iff)
qed

text \<open>A cold start that succeeds on the second probe, and a backend that stays down.\<close>

theorem request_only_after_healthy_probe_witness:
  "PostRecommend ''java'' 10 \<in> set (script (Some ''key'') typed_java backend_cold)
   \<and> (\<exists>pre post. script (Some ''key'') typed_java backend_cold
          = pre @ PostRecommend ''java'' 10 # post \<and> Probe True \<in> set pre)
   \<and> \<not> check_api_health (health1 backend_cold)
   \<and> (\<exists>rest. main typed_java backend_cold
          = [Probe False, StInfo ''Starting backend AI service...'', Popen, Sleep 3, Probe True]
            @ rest)
   \<and> \<not> check_api_health (health1 backend_down) \<and> \<not> check_api_health (health2 backend_down)
   \<and> main typed_java backend_down
       = [Probe False, StInfo ''Starting backend AI service...'', Popen, Sleep 3,
          Probe False, StError ''Failed to start API service'', StStop]"
proof -
  have p: "PostRecommend ''java'' 10 \<in> set (script (Some ''key'') typed_java backend_cold)"
    by (simp add: script_def main_post startup_def input_section_def check_api_health_def Let_def
        max_results_of_def slider_def typed_java_def backend_cold_def backend_down_def)
  have c: "\<not> check_api_health (health1 backend_cold)"
          "check_api_health (health2 backend_cold)"
          "popen_error backend_cold = None"
    by (simp_all add: check_api_health_def backend_cold_def backend_down_def)
  have d: "\<not> check_api_health (health1 backend_down)"
          "\<not> check_api_health (health2 backend_down)"
          "popen_error backend_down = None"
    by (simp_all add: check_api_health_def backend_down_def)
  from request_only_after_healthy_probe [of "Some ''key''" typed_java backend_cold]
       request_only_after_healthy_probe [of "Some ''key''" typed_java backend_down] p c d
  show ?thesis by (simp add: start_api_server_def)
qed

section \<open>Scraper\<close>

text \<open>
  C9: \<open>scrape_job_description\<close> returns a string on every outcome of the fetch and the
  parse. When they raise, it returns \<open>"Error: "\<close> followed by the exception text; that
  string is non-empty, so a run in URL mode (button pressed, URL given, backend healthy)
  submits the error text to the recommendation service as the query.
\<close>

theorem scrape_error_text_is_submitted:
  "scrape_job_description (PageRaised x) u = ''Error: '' @ x
   \<and> scrape_job_description (Page (Some content) ps) u = content
   \<and> scrape_job_description (Page None ps) u = join '' '' ps
   \<and> scrape_job_description (PageRaised x) u \<noteq> []
   \<and> (mode w = JobDescriptionURL \<and> run w \<and> url_input w \<noteq> [] \<and> page e = PageRaised x
        \<and> (check_api_health (health1 e) \<or> check_api_health (health2 e))
        \<longrightarrow> PostRecommend (''Error: '' @ x) (max_results_of w) \<in> set (main w e))"
  by (simp add: scrape_job_description_def main_post startup_alive_iff input_section_def Let_def)

text \<open>A page fetch that times out, with the slider at 5.\<close>

theorem scrape_error_text_is_submitted_witness:
  "mode pasted_url = JobDescriptionURL \<and> run pasted_url \<and> url_input pasted_url \<noteq> []
   \<and> page backend_up = PageRaised ''timed out''
   \<and> check_api_health (health1 backend_up)
   \<and> scrape_job_description (PageRaised ''timed out'') (url_input pasted_url)
       = ''Error: timed out''
   \<and> PostRecommend ''Error: timed out'' 5 \<in> set (main pasted_url backend_up)"
proof -
  have h: "mode pasted_url = JobDescriptionURL" "run pasted_url" "url_input pasted_url \<noteq> []"
    "page backend_up = PageRaised ''timed out''" "check_api_health (health1 backend_up)"
    "max_results_of pasted_url = 5"
    by (simp_all add: pasted_url_def backend_up_def check_api_health_def max_results_of_def
        slider_def)
  from scrape_error_text_is_submitted
         [where x = "''timed out''" and u = "url_input pasted_url" and w = pasted_url
            and e = backend_up] h
  show ?thesis by simp
qed

section \<open>Empty results and failures\<close>

text \<open>
  C2: when the service answers 200 with no matches, the function hands the page an empty
  list and reports no error, and the page ends with the "refine your query" warning right
  after the request, rendering no recommendation card.
\<close>

theorem empty_success_renders_refine_message:
  assumes "recommend e = Response 200 (Assessments [])"
    and "PostRecommend q m \<in> set (main w e)"
  shows "get_recommendations_from_api (recommend e) q (Some m) = ([PostRecommend q m], [])
         \<and> main w e = fst (startup e) @ [Header] @ fst (input_section w e)
              @ [PostRecommend q m, StWarning ''No assessments found. Try refining your query.'']
         \<and> (\<forall>c. Card c \<notin> set (main w e))"
proof -
  from assms(2) have m: "m = max_results_of w"
    by (simp add: main_post)
  have g: "get_recommendations_from_api (recommend e) q (Some m) = ([PostRecommend q m], [])"
    by (simp add: assms(1) get_recommendations_from_api_def)
  then have r: "recommendations w e q
      = ([PostRecommend q m, StWarning ''No assessments found. Try refining your query.''], True)"
    by (simp add: recommendations_def m)
  have t: "main w e = fst (startup e) @ [Header] @ fst (input_section w e)
      @ [PostRecommend q m, StWarning ''No assessments found. Try refining your query.'']"
    using main_when_posted [OF assms(2)] r by simp
  have "Card c \<notin> set (main w e)" for c
    using startup_no_card [of c e] input_section_no_card [of c w e] by (simp add: t)
  with g t show ?thesis by simp
qed

text \<open>A typed query that matches nothing.\<close>

theorem empty_success_renders_refine_message_witness:
  "recommend no_matches = Response 200 (Assessments [])
   \<and> PostRecommend ''java'' 10 \<in> set (main typed_java no_matches)
   \<and> main typed_java no_matches
       = [Probe True, Header, PostRecommend ''java'' 10,
          StWarning ''No assessments found. Try refining your query.'']"
proof -
  have a: "recommend no_matches = Response 200 (Assessments [])"
    by (simp add: no_matches_def)
  have p: "PostRecommend ''java'' 10 \<in> set (main typed_java no_matches)"
    by (simp add: main_post startup_def input_section_def check_api_health_def Let_def
        max_results_of_def slider_def typed_java_def no_matches_def backend_up_def)
  have s: "fst (startup no_matches) = [Probe True]"
          "fst (input_section typed_java no_matches) = []"
    by (simp_all add: startup_def input_section_def check_api_health_def typed_java_def
        no_matches_def backend_up_def)
  from empty_success_renders_refine_message [OF a p] a p s
  show ?thesis by simp
qed

text \<open>
  C1 as stated fails: a 503 answer to the request is presented exactly like a successful
  answer without matches, through the same warning.
\<close>

theorem failure_rendered_as_no_matches:
  "main typed_java catalog_unavailable
     = [Probe True, Header, PostRecommend ''java'' 10,
        StWarning ''No assessments found. Try refining your query.'']
   \<and> main typed_java no_matches
     = [Probe True, Header, PostRecommend ''java'' 10,
        StWarning ''No assessments found. Try refining your query.'']
   \<and> recommend catalog_unavailable = Response 503 (Unparsable ''no key'')
   \<and> recommend no_matches = Response 200 (Assessments [])"
  by (simp add: main_def startup_def page_body_def input_section_def recommendations_def
      get_recommendations_from_api_def truthy_query_def check_api_health_def Let_def
      max_results_of_def slider_def typed_java_def no_matches_def catalog_unavailable_def
      backend_up_def)

text \<open>
  C1, amended: a response with a status other than 200 is presented exactly as a
  successful empty result; a transport exception, and a 200 response whose body cannot be
  read, is reported by an "API error" message carrying the exception text, followed by the
  same "no assessments" warning.
\<close>

theorem failures_as_rendered:
  "(s \<noteq> 200 \<longrightarrow>
      main w (e\<lparr>recommend := Response s b\<rparr>)
        = main w (e\<lparr>recommend := Response 200 (Assessments [])\<rparr>))
   \<and> ((recommend e = Raised x \<or> recommend e = Response 200 (Unparsable x))
        \<and> PostRecommend q m \<in> set (main w e) \<longrightarrow>
      main w e = fst (startup e) @ [Header] @ fst (input_section w e)
        @ [PostRecommend q m, StError (''API error: '' @ x),
           StWarning ''No assessments found. Try refining your query.''])"
proof (intro conjI impI)
  assume s: "s \<noteq> 200"
  have "recommendations w (e\<lparr>recommend := Response s b\<rparr>) query
      = recommendations w (e\<lparr>recommend := Response 200 (Assessments [])\<rparr>) query" for query
    using s by (simp add: recommendations_def get_recommendations_from_api_def)
  moreover have "input_section w (e\<lparr>recommend := Response s b\<rparr>)
      = input_section w (e\<lparr>recommend := Response 200 (Assessments [])\<rparr>)"
    by (cases "mode w") (simp_all add: input_section_def)
  ultimately have "page_body w (e\<lparr>recommend := Response s b\<rparr>)
      = page_body w (e\<lparr>recommend := Response 200 (Assessments [])\<rparr>)"
    by (simp add: page_body_def split: prod.split option.split)
  moreover have "startup (e\<lparr>recommend := Response s b\<rparr>)
      = startup (e\<lparr>recommend := Response 200 (Assessments [])\<rparr>)"
    by (simp add: startup_def)
  ultimately show "main w (e\<lparr>recommend := Response s b\<rparr>)
      = main w (e\<lparr>recommend := Response 200 (Assessments [])\<rparr>)"
    by (simp add: main_unfold)
next
  assume a: "(recommend e = Raised x \<or> recommend e = Response 200 (Unparsable x))
      \<and> PostRecommend q m \<in> set (main w e)"
  then have m: "m = max_results_of w"
    by (simp add: main_post)
  from a have "get_recommendations_from_api (recommend e) q (Some m)
      = ([PostRecommend q m, StError (''API error: '' @ x)], [])"
    by (auto simp: get_recommendations_from_api_def)
  then have "recommendations w e q
      = ([PostRecommend q m, StError (''API error: '' @ x),
          StWarning ''No assessments found. Try refining your query.''], True)"
    by (simp add: recommendations_def m)
  with main_when_posted [of q m w e] a
  show "main w e = fst (startup e) @ [Header] @ fst (input_section w e)
        @ [PostRecommend q m, StError (''API error: '' @ x),
           StWarning ''No assessments found. Try refining your query.'']"
    by simp
qed

text \<open>A 503 answer, and a connection that is reset.\<close>

theorem failures_as_rendered_witness:
  "(503::int) \<noteq> 200
   \<and> main typed_java (backend_up\<lparr>recommend := Response 503 (Unparsable ''no key'')\<rparr>)
       = main typed_java (backend_up\<lparr>recommend := Response 200 (Assessments [])\<rparr>)
   \<and> recommend unreachable = Raised ''connection reset''
   \<and> PostRecommend ''java'' 10 \<in> set (main typed_java unreachable)
   \<and> main typed_java unreachable
       = [Probe True, Header, PostRecommend ''java'' 10,
          StError ''API error: connection reset'',
          StWarning ''No assessments found. Try refining your query.'']"
proof -
  have a: "recommend unreachable = Raised ''connection reset''"
    by (simp add: unreachable_def)
  have p: "PostRecommend ''java'' 10 \<in> set (main typed_java unreachable)"
    by (simp add: main_post startup_def input_section_def check_api_health_def Let_def
        max_results_of_def slider_def typed_java_def unreachable_def backend_up_def)
  have s: "fst (startup unreachable) = [Probe True]"
          "fst (input_section typed_java unreachable) = []"
    by (simp_all add: startup_def input_section_def check_api_health_def typed_java_def
        unreachable_def backend_up_def)
  from failures_as_rendered
         [where s = 503 and w = typed_java and e = backend_up and b = "Unparsable ''no key''"]
       failures_as_rendered
         [where s = 503 and w = typed_java and e = unreachable and x = "''connection reset''"
            and q = "''java''" and m = 10] a p s
  show ?thesis by simp
qed

section \<open>Durations\<close>

lemma durations_map_filter:
  "durations rs = filter (\<lambda>d. d \<noteq> 0) (List.map_filter duration rs)"
  by (induction rs) (simp_all add: List.map_filter_simps truthy_duration_def split: option.split)

lemma durations_drop_absent: "durations (filter (\<lambda>r. duration r \<noteq> None) rs) = durations rs"
  by (induction rs) (auto split: option.split)

lemma durations_all_absent: "\<forall>r \<in> set rs. duration r = None \<Longrightarrow> durations rs = []"
  by (induction rs) simp_all

text \<open>
  C4: an absent duration is not treated as zero where it is consumed. The average-duration
  metric is computed from the present (and non-zero) durations only, so removing the records
  without a duration does not change it; when no record carries a duration it reads "N/A";
  and a card shows an absent duration as \<open>None\<close>, not as \<open>0\<close>.
\<close>

theorem absent_duration_not_counted_as_zero:
  "durations rs = filter (\<lambda>d. d \<noteq> 0) (List.map_filter duration rs)
   \<and> avg_duration_metric rs = avg_duration_metric (filter (\<lambda>r. duration r \<noteq> None) rs)
   \<and> ((\<forall>r \<in> set rs. duration r = None) \<longrightarrow> avg_duration_metric rs = MStr ''N/A'')
   \<and> metrics rs ! 2 = StMetric ''Avg Duration (mins)'' (avg_duration_metric rs)
   \<and> (duration a = None \<longrightarrow> card_duration (render_card i a) = ''None minutes'')"
proof (intro conjI impI)
  show "durations rs = filter (\<lambda>d. d \<noteq> 0) (List.map_filter duration rs)"
    by (rule durations_map_filter)
  show "avg_duration_metric rs = avg_duration_metric (filter (\<lambda>r. duration r \<noteq> None) rs)"
    unfolding avg_duration_metric_def durations_drop_absent ..
  show "avg_duration_metric rs = MStr ''N/A''" if "\<forall>r \<in> set rs. duration r = None"
    using durations_all_absent [OF that] by (simp add: avg_duration_metric_def)
  show "metrics rs ! 2 = StMetric ''Avg Duration (mins)'' (avg_duration_metric rs)"
    by (simp add: metrics_def)
  show "card_duration (render_card i a) = ''None minutes''" if "duration a = None"
    using that by (simp add: render_card_def str_duration_def)
qed

text \<open>
  One record of 30 minutes and one without duration: the mean is 30, not 15; the record
  without duration alone gives "N/A".
\<close>

theorem absent_duration_not_counted_as_zero_witness:
  "duration teamwork = None
   \<and> avg_duration_metric [java_test, teamwork] = MInt 30
   \<and> avg_duration_metric [java_test, teamwork] = avg_duration_metric [java_test]
   \<and> avg_duration_metric [teamwork] = MStr ''N/A''
   \<and> card_duration (render_card 1 teamwork) = ''None minutes''"
proof -
  have d: "duration teamwork = None" "duration java_test = Some 30"
    by (simp_all add: teamwork_def java_test_def)
  have m: "avg_duration_metric [java_test] = MInt 30"
    by (simp add: avg_duration_metric_def int_mean_def truthy_duration_def d)
  have f: "filter (\<lambda>r. duration r \<noteq> None) [java_test, teamwork] = [java_test]"
    by (simp add: d)
  have g: "\<forall>r \<in> set [teamwork]. duration r = None"
    by (simp add: d)
  note both = absent_duration_not_counted_as_zero [of "[java_test, teamwork]" teamwork 1]
  note lone = absent_duration_not_counted_as_zero [of "[teamwork]" teamwork 1]
  from both have "avg_duration_metric [java_test, teamwork]
      = avg_duration_metric (filter (\<lambda>r. duration r \<noteq> None) [java_test, teamwork])"
    by blast
  then have 1: "avg_duration_metric [java_test, teamwork] = avg_duration_metric [java_test]"
    by (simp only: f)
  from lone g have 2: "avg_duration_metric [teamwork] = MStr ''N/A''"
    by blast
  from lone d(1) have 3: "card_duration (render_card 1 teamwork) = ''None minutes''"
    by blast
  from 1 2 3 m d(1) show ?thesis
    by (simp only: simp_thms)
qed

section \<open>Headline and rationale\<close>

lemma split_not_empty: "split sep s \<noteq> []"
  by (induction s) (auto split: list.splits)

lemma join_split: "join [sep] (split sep s) = s"
proof (induction s)
  case Nil
  show ?case by simp
next
  case (Cons c cs)
  obtain p ps where sp: "split sep cs = p # ps"
    using split_not_empty [of sep cs] by (cases "split sep cs") auto
  show ?case
  proof (cases "c = sep")
    case True
    with Cons sp show ?thesis by simp
  next
    case False
    with Cons sp show ?thesis by (cases ps) simp_all
  qed
qed

lemma split_pieces_free: "p \<in> set (split sep s) \<Longrightarrow> sep \<notin> set p"
  by (induction s arbitrary: p) (auto split: if_splits list.splits)

lemma split_without_sep: "sep \<notin> set s \<Longrightarrow> split sep s = [s]"
  by (induction s) auto

lemma split_with_sep: "sep \<in> set s \<Longrightarrow> drop 1 (split sep s) \<noteq> []"
proof (induction s)
  case Nil
  then show ?case by simp
next
  case (Cons c cs)
  show ?case
  proof (cases "c = sep")
    case True
    then show ?thesis using split_not_empty [of sep cs] by simp
  next
    case False
    with Cons show ?thesis by (cases "split sep cs") auto
  qed
qed

lemma unspace_other: "CHR ''.'' \<noteq> c \<Longrightarrow> unspace (c # cs) = c # unspace cs"
  by (cases cs) simp_all

lemma unspace_free: "CHR ''.'' \<notin> set p \<Longrightarrow> unspace p = p"
  by (induction p) (simp_all add: unspace_other)

lemma unspace_piece:
  "CHR ''.'' \<notin> set p \<Longrightarrow> unspace (p @ ''. '' @ rest) = p @ ''.'' @ unspace rest"
  by (induction p) (simp_all add: unspace_other)

lemma unspace_join:
  "\<forall>p \<in> set ps. CHR ''.'' \<notin> set p \<Longrightarrow> unspace (join ''. '' ps) = join ''.'' ps"
proof (induction ps rule: induct_list012)
  case 1
  show ?case by simp
next
  case (2 x)
  then show ?case by (simp add: unspace_free)
next
  case (3 x y zs)
  then have "unspace (join ''. '' (y # zs)) = join ''.'' (y # zs)"
    by simp
  moreover have "CHR ''.'' \<notin> set x"
    using 3 by simp
  ultimately show ?case
    using unspace_piece [of x "join ''. '' (y # zs)"] by simp
qed

text \<open>
  C5 as stated fails: a description without a full stop and the same description followed
  by one are rendered with the same headline and the same rationale, so nothing recombines
  the two renderings into the two descriptions; and putting headline and rationale together
  again around a full stop doubles the blanks of the stored text.
\<close>

theorem split_rendering_loses_text:
  "headline ''Java test'' = headline ''Java test.''
   \<and> rationale ''Java test'' = rationale ''Java test.''
   \<and> ''Java test'' \<noteq> ''Java test.''
   \<and> headline ''A. B. C'' @ ''.'' @ rationale ''A. B. C'' = ''A. B.  C''"
  by (simp add: headline_def rationale_def)

text \<open>
  C5, amended: the split itself loses nothing (joining the pieces with \<open>'.'\<close> gives the
  description back), and for a description that contains a \<open>'.'\<close> the description is the
  headline, a \<open>'.'\<close>, and the rationale without the blank that the rendering adds after each
  \<open>'.'\<close>; a description without \<open>'.'\<close> is its own headline, with an empty rationale.
\<close>

theorem description_recovered_from_split:
  "join ''.'' (split (CHR ''.'') d) = d
   \<and> d = (if CHR ''.'' \<in> set d then headline d @ ''.'' @ unspace (rationale d)
          else headline d)
   \<and> (CHR ''.'' \<notin> set d \<longrightarrow> rationale d = [])"
proof -
  have whole: "join ''.'' (split (CHR ''.'') d) = d"
    by (rule join_split)
  obtain h t where sp: "split (CHR ''.'') d = h # t"
    using split_not_empty [of "CHR ''.''" d] by (cases "split (CHR ''.'') d") auto
  have free: "\<forall>p \<in> set t. CHR ''.'' \<notin> set p"
    using split_pieces_free [of _ "CHR ''.''" d] sp by simp
  have r: "unspace (rationale d) = join ''.'' t"
    using unspace_join [OF free] sp by (simp add: rationale_def)
  show ?thesis
  proof (cases "CHR ''.'' \<in> set d")
    case True
    then have "t \<noteq> []"
      using split_with_sep [of "CHR ''.''" d] sp by simp
    then obtain y ys where "t = y # ys"
      by (cases t) auto
    with whole sp r True show ?thesis
      by (simp add: headline_def)
  next
    case False
    with whole show ?thesis
      by (simp add: split_without_sep headline_def rationale_def)
  qed
qed

text \<open>A three-sentence description, and one without a full stop.\<close>

theorem description_recovered_from_split_witness:
  "CHR ''.'' \<in> set ''A. B. C''
   \<and> headline ''A. B. C'' = ''A'' \<and> rationale ''A. B. C'' = '' B.  C''
   \<and> ''A. B. C'' = ''A'' @ ''.'' @ unspace '' B.  C''
   \<and> CHR ''.'' \<notin> set ''Teamwork'' \<and> headline ''Teamwork'' = ''Teamwork''
   \<and> rationale ''Teamwork'' = []"
proof -
  have a: "headline ''A. B. C'' = ''A''" "rationale ''A. B. C'' = '' B.  C''"
    by (simp_all add: headline_def rationale_def)
  from description_recovered_from_split [of "''A. B. C''"]
       description_recovered_from_split [of "''Teamwork''"] a
  show ?thesis by (simp add: headline_def)
qed

section \<open>Constraint filter\<close>

text \<open>
  C7: the duration policy rejects exactly the records whose \<open>duration_minutes\<close> is
  present and exceeds the ceiling; so with a duration ceiling as the only constraint in
  force (no required test types, the limit not binding) the Constraint Filter removes
  exactly those records, and it never removes a record whose duration is absent.
\<close>

theorem duration_ceiling_removes_exactly:
  assumes "duration_ceiling cons = Some c" and "required_types cons = []"
    and "length ranked \<le> limit"
  shows "filter_candidates ranked cons limit
           = filter (\<lambda>p. \<not> (\<exists>d. duration_minutes (fst p) = Some d \<and> c < d)) ranked
         \<and> (\<forall>p \<in> set ranked. duration_minutes (fst p) = None
               \<longrightarrow> p \<in> set (filter_candidates ranked cons limit))
         \<and> (within_ceiling (Some c) r
               \<longleftrightarrow> \<not> (\<exists>d. duration_minutes r = Some d \<and> c < d))"
proof -
  let ?keep = "\<lambda>p. within_ceiling (duration_ceiling cons) (fst p)
                    \<and> has_required_type (required_types cons) (fst p)"
  have same: "?keep p \<longleftrightarrow> \<not> (\<exists>d. duration_minutes (fst p) = Some d \<and> c < d)" for p
    using assms(1,2)
    by (cases "duration_minutes (fst p)") (simp_all add: within_ceiling_def has_required_type_def)
  have "length (filter ?keep ranked) \<le> limit"
    using assms(3) length_filter_le [of ?keep ranked] by linarith
  then have "filter_candidates ranked cons limit = filter ?keep ranked"
    by (simp add: filter_candidates_def)
  also have "\<dots> = filter (\<lambda>p. \<not> (\<exists>d. duration_minutes (fst p) = Some d \<and> c < d)) ranked"
    by (rule filter_cong) (simp_all only: same)
  finally have eq: "filter_candidates ranked cons limit
      = filter (\<lambda>p. \<not> (\<exists>d. duration_minutes (fst p) = Some d \<and> c < d)) ranked" .
  have policy: "within_ceiling (Some c) r \<longleftrightarrow> \<not> (\<exists>d. duration_minutes r = Some d \<and> c < d)"
    by (cases "duration_minutes r") (simp_all add: within_ceiling_def)
  show ?thesis
    using policy by (simp add: eq)
qed

text \<open>
  The specification's example: durations \<open>[None, 15, 45, 60]\<close> under a ceiling of 40 keep
  the records with \<open>None\<close> and 15.
\<close>

theorem duration_ceiling_example:
  "duration_ceiling ceiling_40 = Some 40 \<and> required_types ceiling_40 = []
   \<and> length example_ranked \<le> 4
   \<and> map (\<lambda>p. duration_minutes (fst p)) example_ranked = [None, Some 15, Some 45, Some 60]
   \<and> map (\<lambda>p. duration_minutes (fst p)) (filter_candidates example_ranked ceiling_40 4)
       = [None, Some 15]"
  using duration_ceiling_removes_exactly [of ceiling_40 40 example_ranked 4]
  by (simp add: ceiling_40_def example_ranked_def example_record_def)

section \<open>Retriever\<close>
























end
